theory Spec2Isabelle
  imports Complex_Main "HOL-Library.Word"
begin

section \<open>JavaScript strings\<close>

text \<open>
  A JavaScript string is a sequence of UTF-16 code units. \<open>js\<close> writes a string literal of
  the source as such a sequence.
\<close>

type_synonym jsstring = "16 word list"

definition js :: "string \<Rightarrow> jsstring" where
  "js s = map of_char s"

definition dquote :: "16 word" where "dquote = 0x22"
definition comma :: "16 word" where "comma = 0x2C"
definition period :: "16 word" where "period = 0x2E"
definition slash :: "16 word" where "slash = 0x2F"
definition newline :: "16 word" where "newline = 0x0A"
definition plus_sign :: "16 word" where "plus_sign = 0x2B"
definition minus_sign :: "16 word" where "minus_sign = 0x2D"

text \<open>
  The code units that \<open>String.prototype.trim\<close> removes and that \<open>\s\<close> matches in a regular
  expression: WhiteSpace and LineTerminator of ECMAScript.
\<close>

definition is_ws :: "16 word \<Rightarrow> bool" where
  "is_ws c \<longleftrightarrow>
     c = 0x09 \<or> c = 0x0A \<or> c = 0x0B \<or> c = 0x0C \<or> c = 0x0D \<or> c = 0x20 \<or> c = 0xA0 \<or>
     c = 0x1680 \<or> (0x2000 \<le> c \<and> c \<le> 0x200A) \<or> c = 0x2028 \<or> c = 0x2029 \<or>
     c = 0x202F \<or> c = 0x205F \<or> c = 0x3000 \<or> c = 0xFEFF"

text \<open>\<open>\d\<close> of a regular expression without the unicode-sets flag: the digits 0 to 9.\<close>

definition is_digit :: "16 word \<Rightarrow> bool" where
  "is_digit c \<longleftrightarrow> 0x30 \<le> c \<and> c \<le> 0x39"

text \<open>\<open>s.trim()\<close>\<close>

definition trim :: "jsstring \<Rightarrow> jsstring" where
  "trim s = rev (dropWhile is_ws (rev (dropWhile is_ws s)))"

text \<open>\<open>s.replace(/["\s]/g, '')\<close>: every quote and every white space is removed.\<close>

definition strip_quotes_ws :: "jsstring \<Rightarrow> jsstring" where
  "strip_quotes_ws s = filter (\<lambda>c. \<not> (c = dquote \<or> is_ws c)) s"

text \<open>\<open>s.split(sep)\<close> for a separator of one code unit; the result is never empty.\<close>

fun split :: "16 word \<Rightarrow> jsstring \<Rightarrow> jsstring list" where
  "split sep [] = [[]]"
| "split sep (c # cs) =
     (if c = sep then [] # split sep cs
      else (case split sep cs of
              [] \<Rightarrow> [[c]]
            | f # fs \<Rightarrow> (c # f) # fs))"


section \<open>The CSV line tokenizer\<close>

text \<open>
  The \<open>for\<close> loop of \<open>parseCSVLine\<close>, the same text in both variants: the remaining
  characters of the line, then the loop's variables \<open>result\<close>, \<open>current\<close> and \<open>inQuotes\<close>.
  At the end of the line the loop's exit pushes \<open>current\<close>.
\<close>

fun parseCSVLine_loop :: "jsstring \<Rightarrow> jsstring list \<Rightarrow> jsstring \<Rightarrow> bool \<Rightarrow> jsstring list" where
  "parseCSVLine_loop [] result current inQuotes = result @ [current]"
| "parseCSVLine_loop (char # rest) result current inQuotes =
     (if char = dquote then parseCSVLine_loop rest result current (\<not> inQuotes)
      else if char = comma \<and> \<not> inQuotes then parseCSVLine_loop rest (result @ [current]) [] inQuotes
      else parseCSVLine_loop rest result (current @ [char]) inQuotes)"

text \<open>The Express variant returns \<open>result\<close> as it is.\<close>

definition parseCSVLine_express :: "jsstring \<Rightarrow> jsstring list" where
  "parseCSVLine_express line = parseCSVLine_loop line [] [] False"

text \<open>
  \<open>field.replace(/^"|"$/g, '')\<close>: one quote at the start is removed, then one quote at the
  end of what is left.
\<close>

definition strip_edge_quotes :: "jsstring \<Rightarrow> jsstring" where
  "strip_edge_quotes field =
     (let t = (case field of [] \<Rightarrow> [] | c # r \<Rightarrow> if c = dquote then r else field)
      in if t \<noteq> [] \<and> last t = dquote then butlast t else t)"

text \<open>The Netlify variant maps that replacement over \<open>result\<close>.\<close>

definition parseCSVLine_netlify :: "jsstring \<Rightarrow> jsstring list" where
  "parseCSVLine_netlify line = map strip_edge_quotes (parseCSVLine_loop line [] [] False)"


section \<open>Numbers\<close>

text \<open>
  A JavaScript Number is \<open>NaN\<close>, an infinity with its sign, or a finite double. The
  Number read from a decimal literal is kept as the literal's sign and its exact decimal
  magnitude: \<open>Finite neg m\<close> stands for the Number that \<open>m\<close> rounds to, negated when
  \<open>neg\<close> holds. So two results that are equal here are equal Numbers, and no rounding is
  done here. The literal \<open>0\<close> of the source is \<open>Finite False 0\<close>.
\<close>

datatype number = NaN | Infinity bool | Finite bool rat

text \<open>\<open>isNaN(x)\<close> for a Number \<open>x\<close>\<close>

definition isNaN :: "number \<Rightarrow> bool" where
  "isNaN x \<longleftrightarrow> x = NaN"

definition digit_value :: "16 word \<Rightarrow> nat" where
  "digit_value c = unat c - 48"

definition digits_value :: "jsstring \<Rightarrow> nat" where
  "digits_value ds = foldl (\<lambda>n c. 10 * n + digit_value c) 0 ds"

definition pow10 :: "int \<Rightarrow> rat" where
  "pow10 e = (if 0 \<le> e then 10 ^ nat e else 1 / 10 ^ nat (- e))"

text \<open>An optional sign before a literal: whether it is a minus, and what follows it.\<close>

definition strip_sign :: "jsstring \<Rightarrow> bool \<times> jsstring" where
  "strip_sign s =
     (case s of
        [] \<Rightarrow> (False, [])
      | c # r \<Rightarrow> if c = minus_sign then (True, r)
                else if c = plus_sign then (False, r)
                else (False, s))"

text \<open>
  The value of an ExponentPart at the start of \<open>r\<close>: \<open>e\<close> or \<open>E\<close>, an optional sign and
  at least one digit. Where there is none, the literal ends before \<open>r\<close> and the exponent
  is 0.
\<close>

definition exponent_part :: "jsstring \<Rightarrow> int" where
  "exponent_part r =
     (case r of
        [] \<Rightarrow> 0
      | c # r1 \<Rightarrow>
          if c = 0x65 \<or> c = 0x45 then
            (let (neg, r2) = strip_sign r1;
                 ds = takeWhile is_digit r2
             in if ds = [] then 0
                else if neg then - int (digits_value ds)
                else int (digits_value ds))
          else 0)"

text \<open>
  The built-in \<open>parseFloat\<close> of ECMAScript: leading white space is dropped, the longest
  prefix that is a StrDecimalLiteral is read (a sign, then \<open>Infinity\<close> or decimal digits
  with an optional fraction and exponent), and the result is \<open>NaN\<close> when no prefix is one.
\<close>

definition parseFloat :: "jsstring \<Rightarrow> number" where
  "parseFloat inputString =
     (let trimmed = dropWhile is_ws inputString;
          (neg, u) = strip_sign trimmed
      in if take 8 u = js ''Infinity'' then Infinity neg
         else
           (let ip = takeWhile is_digit u;
                r1 = dropWhile is_digit u;
                (fp, r2) = (case r1 of
                              [] \<Rightarrow> ([], [])
                            | c # r \<Rightarrow> if c = period
                                        then (takeWhile is_digit r, dropWhile is_digit r)
                                        else ([], r1))
            in if ip = [] \<and> fp = [] then NaN
               else Finite neg
                      (of_nat (digits_value (ip @ fp)) / 10 ^ length fp * pow10 (exponent_part r2))))"


section \<open>The number normalizers\<close>

text \<open>
  Netlify variant, \<open>parseNumber\<close>: \<open>str.replace(/,/g, '.').replace(/\s/g, '')\<close>, then
  \<open>parseFloat\<close>.
\<close>

definition parseNumber_cleaned :: "jsstring \<Rightarrow> jsstring" where
  "parseNumber_cleaned str =
     filter (\<lambda>c. \<not> is_ws c) (map (\<lambda>c. if c = comma then period else c) str)"

definition parseNumber :: "jsstring \<Rightarrow> number" where
  "parseNumber str =
     (if str = [] \<or> trim str = [] then Finite False 0
      else
        (let cleaned = parseNumber_cleaned str;
             num = parseFloat cleaned
         in if isNaN num then Finite False 0 else num))"

text \<open>\<open>s.replace(a, b)\<close> for strings \<open>a\<close>, \<open>b\<close> of one code unit: the first \<open>a\<close> only.\<close>

fun replace_first :: "16 word \<Rightarrow> 16 word \<Rightarrow> jsstring \<Rightarrow> jsstring" where
  "replace_first a b [] = []"
| "replace_first a b (c # cs) = (if c = a then b # cs else c # replace_first a b cs)"

text \<open>
  Express variant, \<open>parseItalianNumber\<close>: \<open>str.replace(/["\s]/g, '')\<close>, then
  \<open>cleaned.replace(',', '.')\<close>, then \<open>parseFloat\<close>.
\<close>

definition parseItalianNumber :: "jsstring \<Rightarrow> number" where
  "parseItalianNumber str =
     (if str = [] then Finite False 0
      else
        (let cleaned = strip_quotes_ws str
         in if cleaned = [] then Finite False 0
            else
              (let normalized = replace_first comma period cleaned;
                   num = parseFloat normalized
               in if isNaN num then Finite False 0 else num)))"


section \<open>The data model\<close>

text \<open>
  The objects that \<open>parseCSVData\<close> builds, with the names of \<open>shared/schema.ts\<close>. The
  field \<open>power\<close> of the source is \<open>power_field\<close> here.
\<close>

record EnergyData =
  date :: jsstring
  gas :: number
  power_field :: number

record SheetData =
  fileDate :: jsstring
  data :: "EnergyData list"


section \<open>The file date\<close>

text \<open>
  The regular expressions \<open>/^\d{1,2}\/\d{1,2}\/\d{4}$/\<close> (\<open>match_date 1 2\<close>) and
  \<open>/^\d{2}\/\d{2}\/\d{4}$/\<close> (\<open>match_date 2 2\<close>): a run of digits is followed by a slash,
  which is no digit, so each run is read whole.
\<close>

definition match_date :: "nat \<Rightarrow> nat \<Rightarrow> jsstring \<Rightarrow> bool" where
  "match_date lo hi s =
     (let d1 = takeWhile is_digit s
      in lo \<le> length d1 \<and> length d1 \<le> hi \<and>
         (case dropWhile is_digit s of
            [] \<Rightarrow> False
          | c1 # s1 \<Rightarrow>
              c1 = slash \<and>
              (let d2 = takeWhile is_digit s1
               in lo \<le> length d2 \<and> length d2 \<le> hi \<and>
                  (case dropWhile is_digit s1 of
                     [] \<Rightarrow> False
                   | c2 # s2 \<Rightarrow> c2 = slash \<and> length s2 = 4 \<and> list_all is_digit s2))))"

text \<open>
  The test both parsers make on a cell, on \<open>columns[4]\<close> of row 5 and on \<open>columns[3]\<close> of
  row 2: with at least \<open>k + 1\<close> columns and a non-empty \<open>columns[k]\<close>, the cell without its
  quotes and white space (\<open>replace(/["\s]/g, '')\<close>) becomes the file date when it matches
  the pattern; otherwise the file date stays what it was, \<open>fallback\<close>.
\<close>

definition date_from_cell :: "jsstring list \<Rightarrow> nat \<Rightarrow> jsstring \<Rightarrow> jsstring" where
  "date_from_cell columns k fallback =
     (if k + 1 \<le> length columns \<and> columns ! k \<noteq> [] then
        (let cellValue = strip_quotes_ws (columns ! k)
         in if match_date 1 2 cellValue then cellValue else fallback)
      else fallback)"


section \<open>The Netlify parser\<close>

text \<open>
  One pass of the data loop's body: \<open>None\<close> where the source says \<open>continue\<close>. The
  fourth column, \<open>gridStr\<close>, is read and not used.
\<close>

definition row_netlify :: "jsstring \<Rightarrow> EnergyData option" where
  "row_netlify line =
     (if trim line = [] then None
      else
        (let columns = parseCSVLine_netlify line
         in if length columns < 4 \<or> trim (columns ! 0) = [] then None
            else
              (let dateStr = columns ! 0;
                   productionStr = columns ! 1;
                   consumptionStr = columns ! 2;
                   gridStr = columns ! 3
               in Some \<lparr>date = trim dateStr,
                        gas = parseNumber consumptionStr,
                        power_field = parseNumber productionStr\<rparr>)))"

text \<open>The data loop over the lines from index 6 on, \<open>rows\<close> being the array \<open>data\<close> it pushes to.\<close>

fun data_loop_netlify :: "jsstring list \<Rightarrow> EnergyData list \<Rightarrow> EnergyData list" where
  "data_loop_netlify [] rows = rows"
| "data_loop_netlify (line # rest) rows =
     (case row_netlify line of
        None \<Rightarrow> data_loop_netlify rest rows
      | Some r \<Rightarrow> data_loop_netlify rest (rows @ [r]))"

text \<open>
  \<open>today\<close> is what \<open>new Date().toLocaleDateString('it-IT')\<close> returns when the parser
  runs.
\<close>

definition parseCSVData_netlify :: "jsstring \<Rightarrow> jsstring \<Rightarrow> SheetData" where
  "parseCSVData_netlify today csvText =
     (let lines = split newline (trim csvText);
          fileDate = today;
          fileDate = (if 5 \<le> length lines
                      then date_from_cell (parseCSVLine_netlify (lines ! 4)) 4 fileDate
                      else fileDate)
      in \<lparr>fileDate = fileDate, data = data_loop_netlify (drop 6 lines) []\<rparr>)"


section \<open>The Express parser\<close>

text \<open>One pass of its loop's body, on the line as the file has it, \<open>raw\<close>.\<close>

definition row_express :: "jsstring \<Rightarrow> EnergyData option" where
  "row_express raw =
     (let line = trim raw
      in if line = [] then None
         else
           (let columns = parseCSVLine_express line
            in if 3 \<le> length columns then
                 (let dateStr = columns ! 0;
                      gasStr = columns ! 1;
                      powerStr = columns ! 2
                  in if dateStr = [] \<or> \<not> match_date 2 2 dateStr then None
                     else
                       (let gas = parseItalianNumber gasStr;
                            power = parseItalianNumber powerStr
                        in if \<not> isNaN gas \<and> \<not> isNaN power
                           then Some \<lparr>date = dateStr, gas = gas, power_field = power\<rparr>
                           else None))
               else None))"

fun data_loop_express :: "jsstring list \<Rightarrow> EnergyData list \<Rightarrow> EnergyData list" where
  "data_loop_express [] rows = rows"
| "data_loop_express (raw # rest) rows =
     (case row_express raw of
        None \<Rightarrow> data_loop_express rest rows
      | Some r \<Rightarrow> data_loop_express rest (rows @ [r]))"

text \<open>
  The Express parser reads the clock twice: \<open>today\<close> initialises \<open>fileDate\<close>, and
  \<open>today_again\<close> is what the Data Oggi fallback compares \<open>fileDate\<close> with.
\<close>

definition parseCSVData_express :: "jsstring \<Rightarrow> jsstring \<Rightarrow> jsstring \<Rightarrow> SheetData" where
  "parseCSVData_express today today_again csvText =
     (let lines = split newline (trim csvText);
          fileDate = today;
          fileDate = (if 5 \<le> length lines
                      then date_from_cell (parseCSVLine_express (lines ! 4)) 4 fileDate
                      else fileDate);
          fileDate = (if fileDate = today_again \<and> 2 \<le> length lines
                      then date_from_cell (parseCSVLine_express (lines ! 1)) 3 fileDate
                      else fileDate)
      in \<lparr>fileDate = fileDate, data = data_loop_express lines []\<rparr>)"


section \<open>The endpoint\<close>

text \<open>
  What a \<open>catch\<close> clause receives: an \<open>Error\<close> with its message, or a value that is not
  an \<open>Error\<close>.
\<close>

datatype thrown = Error jsstring | NotAnError

text \<open>How an awaited call ends.\<close>

datatype 'a completion = Throws thrown | Returns 'a

text \<open>
  The \<open>Response\<close> that \<open>fetch\<close> resolves to: \<open>text_of\<close> is how \<open>await response.text()\<close>
  ends.
\<close>

record Response =
  ok :: bool
  status :: nat
  statusText :: jsstring
  text_of :: "jsstring completion"

text \<open>A number of the source inside a template literal: its decimal digits.\<close>

fun decimal :: "nat \<Rightarrow> jsstring" where
  "decimal n =
     (if n < 10 then [of_nat (48 + n)]
      else decimal (n div 10) @ [of_nat (48 + n mod 10)])"

declare decimal.simps [simp del]

text \<open>\<open>s.includes(searchString)\<close>\<close>

fun includes_str :: "jsstring \<Rightarrow> jsstring \<Rightarrow> bool" where
  "includes_str [] searchString = (searchString = [])"
| "includes_str (c # s) searchString =
     (take (length searchString) (c # s) = searchString \<or> includes_str s searchString)"

text \<open>
  The body of a reply, before it is written as JSON: the empty string, a parsed sheet, or
  an object of string fields.
\<close>

datatype body = EmptyBody | SheetBody SheetData | ObjectBody "(string \<times> jsstring) list"

record HandlerEvent =
  path :: jsstring
  httpMethod :: jsstring

record HandlerResponse =
  statusCode :: nat
  headers :: "(string \<times> string) list"
  body :: body

definition cors_headers :: "(string \<times> string) list" where
  "cors_headers =
     [(''Access-Control-Allow-Origin'', ''*''),
      (''Access-Control-Allow-Headers'', ''Content-Type''),
      (''Access-Control-Allow-Methods'', ''GET, POST, PUT, DELETE'')]"

text \<open>\<open>error instanceof Error ? error.message : 'Unknown error'\<close>\<close>

definition message_of :: "thrown \<Rightarrow> jsstring" where
  "message_of error = (case error of Error message \<Rightarrow> message | NotAnError \<Rightarrow> js ''Unknown error'')"

text \<open>
  The \<open>try\<close> block of the Netlify handler, up to \<open>parseCSVData\<close>. \<open>fetched\<close> is how
  \<open>await fetch(GOOGLE_SHEETS_URL)\<close> ends.
\<close>

definition handler_try :: "jsstring \<Rightarrow> Response completion \<Rightarrow> SheetData completion" where
  "handler_try today fetched =
     (case fetched of
        Throws error \<Rightarrow> Throws error
      | Returns response \<Rightarrow>
          if \<not> ok response
          then Throws (Error (js ''HTTP error! status: '' @ decimal (status response)))
          else
            (case text_of response of
               Throws error \<Rightarrow> Throws error
             | Returns csvText \<Rightarrow> Returns (parseCSVData_netlify today csvText)))"

text \<open>The Netlify handler.\<close>

definition handler :: "jsstring \<Rightarrow> Response completion \<Rightarrow> HandlerEvent \<Rightarrow> HandlerResponse" where
  "handler today fetched event =
     (if httpMethod event = js ''OPTIONS''
      then \<lparr>statusCode = 200, headers = cors_headers, body = EmptyBody\<rparr>
      else if includes_str (path event) (js ''energy-data'') \<and> httpMethod event = js ''GET'' then
        (case handler_try today fetched of
           Returns parsedData \<Rightarrow>
             \<lparr>statusCode = 200,
              headers = cors_headers @ [(''Content-Type'', ''application/json'')],
              body = SheetBody parsedData\<rparr>
         | Throws error \<Rightarrow>
             \<lparr>statusCode = 500,
              headers = cors_headers @ [(''Content-Type'', ''application/json'')],
              body = ObjectBody [(''error'', js ''Failed to fetch energy data''),
                                 (''details'', message_of error)]\<rparr>)
      else \<lparr>statusCode = 404, headers = cors_headers,
            body = ObjectBody [(''error'', js ''Not found'')]\<rparr>)"

text \<open>
  \<open>sheetDataSchema.parse\<close> of \<open>shared/schema.ts\<close> on a parsed sheet, whose strings are
  strings and whose numbers are Numbers by their types. What is left to the validation
  library is which Numbers its \<open>z.number()\<close> accepts, \<open>z_number\<close>, and the message of the
  error it throws, \<open>issues\<close>.
\<close>

definition sheetDataSchema_parse ::
    "(number \<Rightarrow> bool) \<Rightarrow> (SheetData \<Rightarrow> jsstring) \<Rightarrow> SheetData \<Rightarrow> SheetData completion" where
  "sheetDataSchema_parse z_number issues parsedData =
     (if list_all (\<lambda>r. z_number (gas r) \<and> z_number (power_field r)) (data parsedData)
      then Returns parsedData
      else Throws (Error (issues parsedData)))"

text \<open>What the Express route sends: \<open>res.json(x)\<close> or \<open>res.status(500).json(x)\<close>.\<close>

record Reply =
  reply_status :: nat
  reply_json :: body

text \<open>The \<open>try\<close> block of the Express route, up to the validation.\<close>

definition route_try ::
    "(number \<Rightarrow> bool) \<Rightarrow> (SheetData \<Rightarrow> jsstring) \<Rightarrow> jsstring \<Rightarrow> jsstring \<Rightarrow>
     Response completion \<Rightarrow> SheetData completion" where
  "route_try z_number issues today today_again fetched =
     (case fetched of
        Throws error \<Rightarrow> Throws error
      | Returns response \<Rightarrow>
          if \<not> ok response
          then Throws (Error (js ''Failed to fetch Google Sheets data: '' @
                 decimal (status response) @ js '' '' @ statusText response))
          else
            (case text_of response of
               Throws error \<Rightarrow> Throws error
             | Returns csvText \<Rightarrow>
                 sheetDataSchema_parse z_number issues
                   (parseCSVData_express today today_again csvText)))"

text \<open>The Express route \<open>GET /api/energy-data\<close>.\<close>

definition energy_data_route ::
    "(number \<Rightarrow> bool) \<Rightarrow> (SheetData \<Rightarrow> jsstring) \<Rightarrow> jsstring \<Rightarrow> jsstring \<Rightarrow>
     Response completion \<Rightarrow> Reply" where
  "energy_data_route z_number issues today today_again fetched =
     (case route_try z_number issues today today_again fetched of
        Returns validatedData \<Rightarrow> \<lparr>reply_status = 200, reply_json = SheetBody validatedData\<rparr>
      | Throws error \<Rightarrow>
          \<lparr>reply_status = 500,
           reply_json = ObjectBody [(''message'', js ''Failed to fetch energy data from Google Sheets''),
                                    (''error'', message_of error)]\<rparr>)"


section \<open>The inputs of the examples\<close>

text \<open>
  The end-to-end scenario: eight lines, the fifth \<open>,,,,"15/03/2024",,\<close>, the seventh
  \<open>01/01/2024,10,5\<close> and the eighth \<open>,,,\<close>; the other lines are headers.
\<close>

definition scenario_csv :: jsstring where
  \<open>scenario_csv =
     js ''h1\<newline>h2\<newline>h3\<newline>h4\<newline>,,,,"15/03/2024",,\<newline>h6\<newline>01/01/2024,10,5\<newline>,,,''\<close>

text \<open>The same file with a fourth field, the grid value, on its data row.\<close>

definition scenario_csv_grid :: jsstring where
  \<open>scenario_csv_grid =
     js ''h1\<newline>h2\<newline>h3\<newline>h4\<newline>,,,,"15/03/2024",,\<newline>h6\<newline>01/01/2024,10,5,0\<newline>,,,''\<close>


text \<open>
  A file whose cell E5 holds the date of the day the parser runs, 2 November 2026, and
  whose second row holds another date in its fourth column.
\<close>

definition override_csv :: jsstring where
  "override_csv = js ''h1\<newline>a,b,c,01/01/2020\<newline>h3\<newline>h4\<newline>,,,,2/11/2026\<newline>h6''"

text \<open>A file with no date in cell E5 and a date in the fourth column of its second row.\<close>

definition fallback_csv :: jsstring where
  "fallback_csv = js ''h1\<newline>a,b,c,01/01/2020\<newline>h3\<newline>h4\<newline>h5\<newline>h6''"


section \<open>Evaluation\<close>

lemmas char_defs =
  dquote_def comma_def period_def slash_def newline_def plus_sign_def minus_sign_def

lemmas eval_defs =
  js_def char_defs is_ws_def is_digit_def trim_def strip_quotes_ws_def
  parseCSVLine_express_def parseCSVLine_netlify_def strip_edge_quotes_def
  isNaN_def digit_value_def digits_value_def pow10_def strip_sign_def exponent_part_def
  parseFloat_def parseNumber_cleaned_def parseNumber_def parseItalianNumber_def
  match_date_def date_from_cell_def row_netlify_def row_express_def
  parseCSVData_netlify_def parseCSVData_express_def Let_def


section \<open>The tokenizer\<close>

text \<open>No field of the loop's result holds a quote: the loop never appends one.\<close>

lemma loop_fields_no_quote:
  "\<forall>f \<in> set result. dquote \<notin> set f \<Longrightarrow> dquote \<notin> set current \<Longrightarrow>
   \<forall>f \<in> set (parseCSVLine_loop line result current q). dquote \<notin> set f"
  by (induction line result current q rule: parseCSVLine_loop.induct) auto

lemma strip_edge_quotes_id: "dquote \<notin> set f \<Longrightarrow> strip_edge_quotes f = f"
proof -
  assume nq: "dquote \<notin> set f"
  have "f \<noteq> [] \<Longrightarrow> last f \<noteq> dquote"
    using nq by (metis last_in_set)
  with nq show ?thesis
    by (cases f) (auto simp: strip_edge_quotes_def)
qed

text \<open>So the Netlify variant's replacement changes nothing, and the two variants agree.\<close>

lemma parseCSVLine_netlify_eq: "parseCSVLine_netlify line = parseCSVLine_express line"
proof -
  have "\<forall>f \<in> set (parseCSVLine_loop line [] [] False). dquote \<notin> set f"
    by (rule loop_fields_no_quote) simp_all
  then have "map strip_edge_quotes (parseCSVLine_loop line [] [] False) =
      parseCSVLine_loop line [] [] False"
    by (simp add: map_idI strip_edge_quotes_id)
  then show ?thesis
    by (simp add: parseCSVLine_netlify_def parseCSVLine_express_def)
qed

text \<open>
  Inside quotes the loop appends everything up to the closing quote to the current field,
  commas included.
\<close>

lemma loop_inside_quotes:
  "dquote \<notin> set quoted \<Longrightarrow>
   parseCSVLine_loop (quoted @ dquote # rest) result current True =
   parseCSVLine_loop rest result (current @ quoted) False"
  by (induction quoted arbitrary: current) auto

text \<open>
  Claim C6: the line \<open>a,"b,c",d\<close> is tokenized into exactly the three fields \<open>a\<close>, \<open>b,c\<close>
  and \<open>d\<close> by both variants of \<open>parseCSVLine\<close>. A comma between quotes never separates
  fields: when the loop meets an opening quote outside quotes, everything up to the closing
  quote goes to the current field, whatever commas it holds.
\<close>

theorem C6_tokenize_quoted_comma:
  \<open>parseCSVLine_netlify (js ''a,"b,c",d'') = [js ''a'', js ''b,c'', js ''d''] \<and>
   parseCSVLine_express (js ''a,"b,c",d'') = [js ''a'', js ''b,c'', js ''d''] \<and>
   (dquote \<notin> set quoted \<longrightarrow>
      parseCSVLine_loop (dquote # quoted @ dquote # rest) result current False =
      parseCSVLine_loop rest result (current @ quoted) False)\<close>
proof -
  have \<open>parseCSVLine_netlify (js ''a,"b,c",d'') = [js ''a'', js ''b,c'', js ''d'']\<close>
    and \<open>parseCSVLine_express (js ''a,"b,c",d'') = [js ''a'', js ''b,c'', js ''d'']\<close>
    by (simp_all add: parseCSVLine_netlify_def parseCSVLine_express_def strip_edge_quotes_def
        js_def char_defs)
  then show ?thesis
    by (simp add: loop_inside_quotes)
qed

text \<open>Claim C6 at the quoted field of that line, with \<open>a\<close> read and \<open>,d\<close> to come.\<close>

theorem C6_tokenize_quoted_comma_witness:
  "dquote \<notin> set (js ''b,c'') \<and>
   parseCSVLine_loop (dquote # js ''b,c'' @ dquote # js '',d'') [js ''a''] [] False =
     [js ''a'', js ''b,c'', js ''d'']"
proof -
  have h: "dquote \<notin> set (js ''b,c'')"
    by (simp add: js_def char_defs)
  have "parseCSVLine_loop (js '',d'') [js ''a''] ([] @ js ''b,c'') False =
      [js ''a'', js ''b,c'', js ''d'']"
    by (simp add: js_def char_defs)
  with h C6_tokenize_quoted_comma [of "js ''b,c''" "js '',d''" "[js ''a'']" "[]"]
  show ?thesis by simp
qed


section \<open>White space and dates\<close>

lemma trim_empty_iff: "trim s = [] \<longleftrightarrow> (\<forall>c \<in> set s. is_ws c)"
proof
  assume "trim s = []"
  then have a: "\<forall>c \<in> set (dropWhile is_ws s). is_ws c"
    by (simp add: trim_def dropWhile_eq_Nil_conv)
  have "dropWhile is_ws s = []"
  proof (cases "dropWhile is_ws s")
    case (Cons c cs)
    then have "\<not> is_ws c" using hd_dropWhile[of is_ws s] by simp
    with a Cons show ?thesis by simp
  qed simp
  then show "\<forall>c \<in> set s. is_ws c" by (simp add: dropWhile_eq_Nil_conv)
next
  assume "\<forall>c \<in> set s. is_ws c"
  then show "trim s = []" by (auto simp: trim_def dest: set_dropWhileD)
qed

lemma digit_not_ws: "is_digit c \<Longrightarrow> \<not> is_ws c"
  unfolding is_digit_def is_ws_def by (auto simp: word_le_def word_less_def)

lemma match_date_first_digit:
  "match_date lo hi s \<Longrightarrow> 0 < lo \<Longrightarrow> \<exists>c r. s = c # r \<and> is_digit c"
  by (cases s) (auto simp: match_date_def Let_def split: if_splits)

lemma match_date_trim_nonempty: "match_date lo hi s \<Longrightarrow> 0 < lo \<Longrightarrow> trim s \<noteq> []"
  using match_date_first_digit[of lo hi s] digit_not_ws by (auto simp: trim_empty_iff)


section \<open>The normalizers never return NaN\<close>

lemma parseNumber_not_NaN: "parseNumber str \<noteq> NaN"
  by (simp add: parseNumber_def isNaN_def Let_def)

lemma parseItalianNumber_not_NaN: "parseItalianNumber str \<noteq> NaN"
  by (simp add: parseItalianNumber_def isNaN_def Let_def)


section \<open>The data loops\<close>

text \<open>Each loop pushes, in order, the record of every line whose pass does not \<open>continue\<close>.\<close>

lemma data_loop_netlify_eq: "data_loop_netlify ls rows = rows @ List.map_filter row_netlify ls"
  by (induction ls arbitrary: rows) (auto simp: List.map_filter_simps split: option.splits)

lemma data_loop_express_eq: "data_loop_express ls rows = rows @ List.map_filter row_express ls"
  by (induction ls arbitrary: rows) (auto simp: List.map_filter_simps split: option.splits)

lemma data_netlify:
  "data (parseCSVData_netlify today csvText) =
     List.map_filter row_netlify (drop 6 (split newline (trim csvText)))"
  by (simp add: parseCSVData_netlify_def Let_def data_loop_netlify_eq)

lemma data_express:
  "data (parseCSVData_express today today_again csvText) =
     List.map_filter row_express (split newline (trim csvText))"
  by (simp add: parseCSVData_express_def Let_def data_loop_express_eq)

lemma row_netlify_None_iff:
  "row_netlify line = None \<longleftrightarrow>
     trim line = [] \<or> length (parseCSVLine_netlify line) < 4 \<or>
     trim (parseCSVLine_netlify line ! 0) = []"
  by (simp add: row_netlify_def Let_def)

text \<open>
  In the Express variant a row that passes the date test is pushed: the test on
  \<open>isNaN\<close> that follows holds for every row.
\<close>

lemma row_express_Some:
  "trim raw \<noteq> [] \<Longrightarrow> 3 \<le> length (parseCSVLine_express (trim raw)) \<Longrightarrow>
   match_date 2 2 (parseCSVLine_express (trim raw) ! 0) \<Longrightarrow>
   row_express raw =
     Some \<lparr>date = parseCSVLine_express (trim raw) ! 0,
           gas = parseItalianNumber (parseCSVLine_express (trim raw) ! 1),
           power_field = parseItalianNumber (parseCSVLine_express (trim raw) ! 2)\<rparr>"
  using match_date_trim_nonempty[of 2 2 "parseCSVLine_express (trim raw) ! 0"]
  by (auto simp: row_express_def Let_def isNaN_def parseItalianNumber_not_NaN trim_empty_iff)

lemma row_express_None_iff:
  "row_express raw = None \<longleftrightarrow>
     trim raw = [] \<or> length (parseCSVLine_express (trim raw)) < 3 \<or>
     \<not> match_date 2 2 (parseCSVLine_express (trim raw) ! 0)"
proof (cases "trim raw \<noteq> [] \<and> 3 \<le> length (parseCSVLine_express (trim raw)) \<and>
    match_date 2 2 (parseCSVLine_express (trim raw) ! 0)")
  case True
  then show ?thesis using row_express_Some[of raw] by auto
next
  case False
  then show ?thesis by (auto simp: row_express_def Let_def)
qed


section \<open>The end-to-end scenario\<close>

lemma scenario_lines:
  \<open>split newline (trim scenario_csv) =
     [js ''h1'', js ''h2'', js ''h3'', js ''h4'', js '',,,,"15/03/2024",,'', js ''h6'',
      js ''01/01/2024,10,5'', js '',,,'']\<close>
  by (simp add: scenario_csv_def js_def char_defs trim_def is_ws_def)

lemma scenario_grid_lines:
  \<open>split newline (trim scenario_csv_grid) =
     [js ''h1'', js ''h2'', js ''h3'', js ''h4'', js '',,,,"15/03/2024",,'', js ''h6'',
      js ''01/01/2024,10,5,0'', js '',,,'']\<close>
  by (simp add: scenario_csv_grid_def js_def char_defs trim_def is_ws_def)

lemma scenario_E5:
  \<open>date_from_cell (parseCSVLine_express (js '',,,,"15/03/2024",,'')) 4 f = js ''15/03/2024''\<close>
  \<open>date_from_cell (parseCSVLine_netlify (js '',,,,"15/03/2024",,'')) 4 f = js ''15/03/2024''\<close>
  by (simp_all add: eval_defs)

lemma scenario_row2: "date_from_cell (parseCSVLine_express (js ''h2'')) 3 f = f"
  by (simp add: date_from_cell_def parseCSVLine_express_def js_def char_defs)

lemma scenario_rows_express:
  \<open>row_express (js ''h1'') = None\<close>
  \<open>row_express (js ''h2'') = None\<close>
  \<open>row_express (js ''h3'') = None\<close>
  \<open>row_express (js ''h4'') = None\<close>
  \<open>row_express (js '',,,,"15/03/2024",,'') = None\<close>
  \<open>row_express (js ''h6'') = None\<close>
  \<open>row_express (js ''01/01/2024,10,5'') =
     Some \<lparr>date = js ''01/01/2024'', gas = Finite False 10, power_field = Finite False 5\<rparr>\<close>
  \<open>row_express (js '',,,'') = None\<close>
  by (simp_all add: eval_defs)

lemma scenario_rows_netlify:
  \<open>row_netlify (js ''01/01/2024,10,5'') = None\<close>
  \<open>row_netlify (js ''01/01/2024,10,5,0'') =
     Some \<lparr>date = js ''01/01/2024'', gas = Finite False 5, power_field = Finite False 10\<rparr>\<close>
  \<open>row_netlify (js '',,,'') = None\<close>
  by (simp_all add: eval_defs)

text \<open>
  Claim C1, as stated: on the scenario \<open>parseCSVData\<close> returns exactly one record with
  \<open>gas\<close> 5 and \<open>power\<close> 10. Neither variant does: the Netlify variant wants four fields
  on a data row and returns no record, and the Express variant reads the second column
  as \<open>gas\<close>.
\<close>

theorem C1_scenario_as_stated_fails:
  "data (parseCSVData_netlify (js ''2/11/2026'') scenario_csv) \<noteq>
     [\<lparr>date = js ''01/01/2024'', gas = Finite False 5, power_field = Finite False 10\<rparr>] \<and>
   data (parseCSVData_express (js ''2/11/2026'') (js ''2/11/2026'') scenario_csv) \<noteq>
     [\<lparr>date = js ''01/01/2024'', gas = Finite False 5, power_field = Finite False 10\<rparr>]"
  by (simp add: parseCSVData_express_def parseCSVData_netlify_def scenario_lines
      scenario_rows_express scenario_rows_netlify Let_def)

text \<open>
  Claim C1, amended: on the scenario both variants return the file date \<open>15/03/2024\<close> and
  drop the blank eighth line. The Express variant returns exactly one record, with the
  date \<open>01/01/2024\<close>, \<open>gas\<close> 10 and \<open>power\<close> 5. The Netlify variant returns no record,
  the data row having three fields; with a fourth field on that row it returns exactly
  one record, with \<open>gas\<close> 5 and \<open>power\<close> 10.
\<close>

theorem C1_scenario:
  "parseCSVData_express today today_again scenario_csv =
     \<lparr>fileDate = js ''15/03/2024'',
      data = [\<lparr>date = js ''01/01/2024'', gas = Finite False 10, power_field = Finite False 5\<rparr>]\<rparr> \<and>
   parseCSVData_netlify today scenario_csv = \<lparr>fileDate = js ''15/03/2024'', data = []\<rparr> \<and>
   parseCSVData_netlify today scenario_csv_grid =
     \<lparr>fileDate = js ''15/03/2024'',
      data = [\<lparr>date = js ''01/01/2024'', gas = Finite False 5, power_field = Finite False 10\<rparr>]\<rparr>"
  by (simp add: parseCSVData_express_def parseCSVData_netlify_def scenario_lines
      scenario_grid_lines scenario_E5 scenario_row2 scenario_rows_express scenario_rows_netlify
      Let_def)

text \<open>The amended claim C1 with the clock at 2 November 2026.\<close>

theorem C1_scenario_witness:
  "parseCSVData_express (js ''2/11/2026'') (js ''2/11/2026'') scenario_csv =
     \<lparr>fileDate = js ''15/03/2024'',
      data = [\<lparr>date = js ''01/01/2024'', gas = Finite False 10, power_field = Finite False 5\<rparr>]\<rparr> \<and>
   parseCSVData_netlify (js ''2/11/2026'') scenario_csv_grid =
     \<lparr>fileDate = js ''15/03/2024'',
      data = [\<lparr>date = js ''01/01/2024'', gas = Finite False 5, power_field = Finite False 10\<rparr>]\<rparr>"
  using C1_scenario [of "js ''2/11/2026''" "js ''2/11/2026''"] by simp


section \<open>Which rows are skipped\<close>

lemma example_rows:
  "row_netlify (js ''01/01/2024,1'') = None"
  "row_express (js ''01/01/2024,1'') = None"
  "row_express (js ''01/01/2024,1,2'') =
     Some \<lparr>date = js ''01/01/2024'', gas = Finite False 1, power_field = Finite False 2\<rparr>"
  "row_netlify (js ''01/01/2024,1,2,3'') =
     Some \<lparr>date = js ''01/01/2024'', gas = Finite False 2, power_field = Finite False 1\<rparr>"
  by (simp_all add: eval_defs)

text \<open>
  Claim C2, as stated: a row is skipped only when the line is blank, has fewer than three
  fields or has a blank first field. The Netlify variant skips \<open>01/01/2024,1,2\<close>, and the
  Express variant skips \<open>1/1/2024,1,2\<close>; both lines are not blank, have three fields and a
  first field that is not blank.
\<close>

theorem C2_skipped_with_three_fields:
  "row_netlify (js ''01/01/2024,1,2'') = None \<and>
   trim (js ''01/01/2024,1,2'') \<noteq> [] \<and>
   length (parseCSVLine_netlify (js ''01/01/2024,1,2'')) = 3 \<and>
   trim (parseCSVLine_netlify (js ''01/01/2024,1,2'') ! 0) \<noteq> [] \<and>
   row_express (js ''1/1/2024,1,2'') = None \<and>
   trim (js ''1/1/2024,1,2'') \<noteq> [] \<and>
   length (parseCSVLine_express (trim (js ''1/1/2024,1,2''))) = 3 \<and>
   trim (parseCSVLine_express (trim (js ''1/1/2024,1,2'')) ! 0) \<noteq> []"
  by (simp add: eval_defs)

text \<open>
  Claim C2, amended: each parser emits, in order, a record for exactly the lines its row
  test does not skip, and no line raises an error. The Netlify variant reads the lines
  from the seventh on and skips a line if and only if it is blank, or fewer than four
  fields are tokenized, or the first field is blank. The Express variant reads every line
  and skips one if and only if it is blank, or fewer than three fields are tokenized from
  the trimmed line, or the first field is not two digits, a slash, two digits, a slash and
  four digits. A row with two fields is dropped by both; \<open>01/01/2024,1,2\<close> is kept by the
  Express variant, and \<open>01/01/2024,1,2,3\<close> by the Netlify variant.
\<close>

theorem C2_row_skipped_iff:
  "(row_netlify line = None \<longleftrightarrow>
      trim line = [] \<or> length (parseCSVLine_netlify line) < 4 \<or>
      trim (parseCSVLine_netlify line ! 0) = []) \<and>
   (row_express raw = None \<longleftrightarrow>
      trim raw = [] \<or> length (parseCSVLine_express (trim raw)) < 3 \<or>
      \<not> match_date 2 2 (parseCSVLine_express (trim raw) ! 0)) \<and>
   data (parseCSVData_netlify today csvText) =
     List.map_filter row_netlify (drop 6 (split newline (trim csvText))) \<and>
   data (parseCSVData_express today today_again csvText) =
     List.map_filter row_express (split newline (trim csvText)) \<and>
   row_netlify (js ''01/01/2024,1'') = None \<and>
   row_express (js ''01/01/2024,1'') = None \<and>
   row_express (js ''01/01/2024,1,2'') =
     Some \<lparr>date = js ''01/01/2024'', gas = Finite False 1, power_field = Finite False 2\<rparr> \<and>
   row_netlify (js ''01/01/2024,1,2,3'') =
     Some \<lparr>date = js ''01/01/2024'', gas = Finite False 2, power_field = Finite False 1\<rparr>"
  using row_netlify_None_iff[of line] row_express_None_iff[of raw]
    data_netlify[of today csvText] data_express[of today today_again csvText] example_rows
  by blast

text \<open>
  The amended claim C2 at rows that are kept, and at the scenario, whose eight lines give
  one record.
\<close>

theorem C2_row_skipped_iff_witness:
  "row_netlify (js ''01/01/2024,1,2,3'') \<noteq> None \<and>
   trim (js ''01/01/2024,1,2,3'') \<noteq> [] \<and>
   4 \<le> length (parseCSVLine_netlify (js ''01/01/2024,1,2,3'')) \<and>
   row_express (js ''01/01/2024,1,2'') \<noteq> None \<and>
   match_date 2 2 (parseCSVLine_express (trim (js ''01/01/2024,1,2'')) ! 0) \<and>
   data (parseCSVData_express (js ''2/11/2026'') (js ''2/11/2026'') scenario_csv) =
     [\<lparr>date = js ''01/01/2024'', gas = Finite False 10, power_field = Finite False 5\<rparr>]"
proof -
  have ev:
    "trim (js ''01/01/2024,1,2,3'') \<noteq> []"
    "4 \<le> length (parseCSVLine_netlify (js ''01/01/2024,1,2,3''))"
    "match_date 2 2 (parseCSVLine_express (trim (js ''01/01/2024,1,2'')) ! 0)"
    by (simp_all add: eval_defs)
  show ?thesis
    using C2_row_skipped_iff [of "js ''01/01/2024,1,2,3''" "js ''01/01/2024,1,2''"
        "js ''2/11/2026''" scenario_csv "js ''2/11/2026''"] ev
    by (simp add: scenario_lines scenario_rows_express List.map_filter_simps)
qed


section \<open>Where the file date comes from\<close>

lemma date_from_cell_valid:
  "k < length columns \<Longrightarrow> match_date 1 2 (strip_quotes_ws (columns ! k)) \<Longrightarrow>
   date_from_cell columns k f = strip_quotes_ws (columns ! k)"
  using match_date_first_digit[of 1 2 "strip_quotes_ws (columns ! k)"]
  by (auto simp: date_from_cell_def Let_def strip_quotes_ws_def)

lemma date_from_cell_invalid:
  "\<not> (k < length columns \<and> match_date 1 2 (strip_quotes_ws (columns ! k))) \<Longrightarrow>
   date_from_cell columns k f = f"
  by (auto simp: date_from_cell_def Let_def)

text \<open>
  Claim C10: in the Express parser, when cell E5 holds a valid date that equals the date
  string the Data Oggi fallback compares with, and the fourth column of the second row
  holds a different valid date, the fallback runs and the file date returned is the
  second row's value, not the value of E5.
\<close>

theorem C10_data_oggi_overrides_E5:
  assumes "lines = split newline (trim csvText)"
    and "e5 = strip_quotes_ws (parseCSVLine_express (lines ! 4) ! 4)"
    and "oggi = strip_quotes_ws (parseCSVLine_express (lines ! 1) ! 3)"
    and "5 \<le> length lines"
    and "5 \<le> length (parseCSVLine_express (lines ! 4))"
    and "match_date 1 2 e5"
    and "e5 = today_again"
    and "4 \<le> length (parseCSVLine_express (lines ! 1))"
    and "match_date 1 2 oggi"
    and "oggi \<noteq> e5"
  shows "fileDate (parseCSVData_express today today_again csvText) = oggi \<and>
         fileDate (parseCSVData_express today today_again csvText) \<noteq> e5"
proof -
  have a: "date_from_cell (parseCSVLine_express (lines ! 4)) 4 today = e5"
    using assms by (simp add: date_from_cell_valid)
  have b: "date_from_cell (parseCSVLine_express (lines ! 1)) 3 e5 = oggi"
    using assms by (simp add: date_from_cell_valid)
  have "fileDate (parseCSVData_express today today_again csvText) = oggi"
    using assms(1,4,7) a b by (simp add: parseCSVData_express_def Let_def)
  with assms(10) show ?thesis by simp
qed

lemma override_lines:
  "split newline (trim override_csv) =
     [js ''h1'', js ''a,b,c,01/01/2020'', js ''h3'', js ''h4'', js '',,,,2/11/2026'', js ''h6'']"
  by (simp add: override_csv_def js_def char_defs trim_def is_ws_def)

lemma override_cells:
  "parseCSVLine_express (js '',,,,2/11/2026'') = [[], [], [], [], js ''2/11/2026'']"
  "parseCSVLine_express (js ''a,b,c,01/01/2020'') = [js ''a'', js ''b'', js ''c'', js ''01/01/2020'']"
  "strip_quotes_ws (js ''2/11/2026'') = js ''2/11/2026''"
  "strip_quotes_ws (js ''01/01/2020'') = js ''01/01/2020''"
  "match_date 1 2 (js ''2/11/2026'')"
  "match_date 1 2 (js ''01/01/2020'')"
  "js ''01/01/2020'' \<noteq> js ''2/11/2026''"
  by (simp_all add: eval_defs)

text \<open>Claim C10 on a file of six lines, run on the day its cell E5 names.\<close>

theorem C10_data_oggi_overrides_E5_witness:
  "fileDate (parseCSVData_express (js ''2/11/2026'') (js ''2/11/2026'') override_csv) =
     js ''01/01/2020'' \<and>
   strip_quotes_ws (parseCSVLine_express (split newline (trim override_csv) ! 4) ! 4) =
     js ''2/11/2026''"
proof -
  let ?lines = "split newline (trim override_csv)"
  let ?e5 = "strip_quotes_ws (parseCSVLine_express (?lines ! 4) ! 4)"
  let ?oggi = "strip_quotes_ws (parseCSVLine_express (?lines ! 1) ! 3)"
  have e5: "?e5 = js ''2/11/2026''" and oggi: "?oggi = js ''01/01/2020''"
    by (simp_all add: override_lines override_cells)
  have h1: "5 \<le> length ?lines"
    by (simp add: override_lines)
  have h2: "5 \<le> length (parseCSVLine_express (?lines ! 4))"
    by (simp add: override_lines override_cells)
  have h3: "match_date 1 2 ?e5"
    unfolding e5 by (rule override_cells)
  have h4: "4 \<le> length (parseCSVLine_express (?lines ! 1))"
    by (simp add: override_lines override_cells)
  have h5: "match_date 1 2 ?oggi"
    unfolding oggi by (rule override_cells)
  have h6: "?oggi \<noteq> ?e5"
    unfolding e5 oggi by (rule override_cells)
  have r: "fileDate (parseCSVData_express (js ''2/11/2026'') (js ''2/11/2026'') override_csv) =
      ?oggi"
    using C10_data_oggi_overrides_E5 [OF refl refl refl h1 h2 h3 e5 h4 h5 h6, of "js ''2/11/2026''"]
    by (rule conjunct1)
  show ?thesis
    using r [unfolded oggi] e5 by (rule conjI)
qed

lemma fallback_lines:
  "split newline (trim fallback_csv) =
     [js ''h1'', js ''a,b,c,01/01/2020'', js ''h3'', js ''h4'', js ''h5'', js ''h6'']"
  by (simp add: fallback_csv_def js_def char_defs trim_def is_ws_def)

lemma fallback_cells:
  "parseCSVLine_express (js ''h5'') = [js ''h5'']"
  "parseCSVLine_express (js ''h2'') = [js ''h2'']"
  \<open>parseCSVLine_express (js '',,,,"15/03/2024",,'') = [[], [], [], [], js ''15/03/2024'', [], []]\<close>
  "strip_quotes_ws (js ''15/03/2024'') = js ''15/03/2024''"
  "match_date 1 2 (js ''15/03/2024'')"
  "js ''15/03/2024'' \<noteq> js ''2/11/2026''"
  by (simp_all add: eval_defs)

lemma fallback_dates:
  "date_from_cell (parseCSVLine_express (js ''h5'')) 4 f = f"
  "date_from_cell (parseCSVLine_express (js ''a,b,c,01/01/2020'')) 3 f = js ''01/01/2020''"
  "date_from_cell (parseCSVLine_express (js '',,,,2/11/2026'')) 4 f = js ''2/11/2026''"
  by (simp_all add: eval_defs)

text \<open>
  Claim C3, as stated: without a valid date in cell E5 the file date is the current date,
  and with one it is that date. In the Express variant a file with no date in E5 gets the
  date of its second row's fourth column, and a file whose E5 is the current date gets that
  too.
\<close>

theorem C3_express_reads_row_2:
  "length (parseCSVLine_express (split newline (trim fallback_csv) ! 4)) = 1 \<and>
   fileDate (parseCSVData_express (js ''2/11/2026'') (js ''2/11/2026'') fallback_csv) =
     js ''01/01/2020'' \<and>
   js ''01/01/2020'' \<noteq> js ''2/11/2026'' \<and>
   5 \<le> length (parseCSVLine_express (split newline (trim override_csv) ! 4)) \<and>
   match_date 1 2 (strip_quotes_ws (parseCSVLine_express (split newline (trim override_csv) ! 4) ! 4)) \<and>
   fileDate (parseCSVData_express (js ''2/11/2026'') (js ''2/11/2026'') override_csv) \<noteq>
     strip_quotes_ws (parseCSVLine_express (split newline (trim override_csv) ! 4) ! 4)"
proof -
  have c1: "length (parseCSVLine_express (split newline (trim fallback_csv) ! 4)) = 1"
    by (simp add: fallback_lines fallback_cells)
  have c2: "fileDate (parseCSVData_express (js ''2/11/2026'') (js ''2/11/2026'') fallback_csv) =
      js ''01/01/2020''"
    by (simp add: parseCSVData_express_def fallback_lines fallback_dates Let_def)
  have c3: "js ''01/01/2020'' \<noteq> js ''2/11/2026''"
    by (rule override_cells)
  have c4: "5 \<le> length (parseCSVLine_express (split newline (trim override_csv) ! 4))"
    by (simp add: override_lines override_cells)
  have e5: "strip_quotes_ws (parseCSVLine_express (split newline (trim override_csv) ! 4) ! 4) =
      js ''2/11/2026''"
    by (simp add: override_lines override_cells)
  have c5: "match_date 1 2
      (strip_quotes_ws (parseCSVLine_express (split newline (trim override_csv) ! 4) ! 4))"
    unfolding e5 by (rule override_cells)
  have "fileDate (parseCSVData_express (js ''2/11/2026'') (js ''2/11/2026'') override_csv) =
      js ''01/01/2020''"
    by (simp add: parseCSVData_express_def override_lines fallback_dates Let_def)
  with c3 have c6:
    "fileDate (parseCSVData_express (js ''2/11/2026'') (js ''2/11/2026'') override_csv) \<noteq>
     strip_quotes_ws (parseCSVLine_express (split newline (trim override_csv) ! 4) ! 4)"
    unfolding e5 by simp
  from c1 c2 c3 c4 c5 c6 show ?thesis
    by (intro conjI)
qed

text \<open>
  Claim C3, amended. Cell E5 is valid when the trimmed input has at least five lines, the
  fifth has at least five fields and the fifth field without quotes and white space is one
  or two digits, a slash, one or two digits, a slash and four digits. In the Netlify
  variant the file date is that value when E5 is valid, and the current date string
  otherwise. In the Express variant the file date is that value when E5 is valid and
  differs from the current date string; when E5 is not valid it is the date in the fourth
  column of the second row if that one is valid and the two readings of the clock agree,
  and the current date string otherwise. Both tokenizers give the same fields
  (\<open>parseCSVLine_netlify_eq\<close>).
\<close>

theorem C3_file_date:
  assumes "lines = split newline (trim csvText)"
    and "e5 = strip_quotes_ws (parseCSVLine_express (lines ! 4) ! 4)"
    and "oggi = strip_quotes_ws (parseCSVLine_express (lines ! 1) ! 3)"
    and "valid_e5 \<longleftrightarrow>
           5 \<le> length lines \<and> 5 \<le> length (parseCSVLine_express (lines ! 4)) \<and>
           match_date 1 2 e5"
    and "valid_oggi \<longleftrightarrow>
           2 \<le> length lines \<and> 4 \<le> length (parseCSVLine_express (lines ! 1)) \<and>
           match_date 1 2 oggi"
  shows "(valid_e5 \<longrightarrow> fileDate (parseCSVData_netlify today csvText) = e5) \<and>
         (\<not> valid_e5 \<longrightarrow> fileDate (parseCSVData_netlify today csvText) = today) \<and>
         (valid_e5 \<and> e5 \<noteq> today_again \<longrightarrow>
            fileDate (parseCSVData_express today today_again csvText) = e5) \<and>
         (\<not> valid_e5 \<and> \<not> (today = today_again \<and> valid_oggi) \<longrightarrow>
            fileDate (parseCSVData_express today today_again csvText) = today) \<and>
         (\<not> valid_e5 \<and> today = today_again \<and> valid_oggi \<longrightarrow>
            fileDate (parseCSVData_express today today_again csvText) = oggi)"
proof -
  let ?row5 = "parseCSVLine_express (lines ! 4)"
  let ?row2 = "parseCSVLine_express (lines ! 1)"
  have first: "(if 5 \<le> length lines then date_from_cell ?row5 4 today else today) =
      (if valid_e5 then e5 else today)"
    using assms(2,4) by (auto simp: date_from_cell_valid date_from_cell_invalid)
  have second: "2 \<le> length lines \<Longrightarrow>
      date_from_cell ?row2 3 f = (if valid_oggi then oggi else f)" for f
    using assms(3,5) by (auto simp: date_from_cell_valid date_from_cell_invalid)
  have not_oggi: "\<not> 2 \<le> length lines \<Longrightarrow> \<not> valid_oggi"
    using assms(5) by simp
  have netlify: "fileDate (parseCSVData_netlify today csvText) = (if valid_e5 then e5 else today)"
    unfolding parseCSVData_netlify_def Let_def assms(1)[symmetric] parseCSVLine_netlify_eq
    using first by simp
  have express: "fileDate (parseCSVData_express today today_again csvText) =
      (let f = (if valid_e5 then e5 else today)
       in if f = today_again \<and> valid_oggi then oggi else f)"
    unfolding parseCSVData_express_def Let_def assms(1)[symmetric]
    using first second not_oggi
    by (cases "2 \<le> length lines") simp_all
  show ?thesis
    unfolding netlify express by (simp add: Let_def)
qed

text \<open>
  The amended claim C3 on the scenario, whose E5 is valid, on a file with a date in its
  second row only, and on a file of one line.
\<close>

theorem C3_file_date_witness:
  "fileDate (parseCSVData_netlify (js ''2/11/2026'') scenario_csv) = js ''15/03/2024'' \<and>
   fileDate (parseCSVData_express (js ''2/11/2026'') (js ''2/11/2026'') scenario_csv) =
     js ''15/03/2024'' \<and>
   fileDate (parseCSVData_netlify (js ''2/11/2026'') fallback_csv) = js ''2/11/2026'' \<and>
   fileDate (parseCSVData_express (js ''2/11/2026'') (js ''2/11/2026'') fallback_csv) =
     js ''01/01/2020'' \<and>
   fileDate (parseCSVData_express (js ''2/11/2026'') (js ''2/11/2026'') (js ''h1'')) =
     js ''2/11/2026''"
proof -
  let ?T = "js ''2/11/2026''"
  let ?e5 = "\<lambda>csv. strip_quotes_ws (parseCSVLine_express (split newline (trim csv) ! 4) ! 4)"
  let ?oggi = "\<lambda>csv. strip_quotes_ws (parseCSVLine_express (split newline (trim csv) ! 1) ! 3)"
  let ?V5 = "\<lambda>csv. 5 \<le> length (split newline (trim csv)) \<and>
      5 \<le> length (parseCSVLine_express (split newline (trim csv) ! 4)) \<and>
      match_date 1 2 (?e5 csv)"
  let ?V2 = "\<lambda>csv. 2 \<le> length (split newline (trim csv)) \<and>
      4 \<le> length (parseCSVLine_express (split newline (trim csv) ! 1)) \<and>
      match_date 1 2 (?oggi csv)"
  note A = C3_file_date [OF refl refl refl refl refl,
      where csvText = scenario_csv and today = ?T and today_again = ?T]
  note B = C3_file_date [OF refl refl refl refl refl,
      where csvText = fallback_csv and today = ?T and today_again = ?T]
  note C = C3_file_date [OF refl refl refl refl refl,
      where csvText = "js ''h1''" and today = ?T and today_again = ?T]
  have a_valid: "?V5 scenario_csv"
    unfolding scenario_lines by (simp add: eval_defs)
  have a_e5: "?e5 scenario_csv = js ''15/03/2024''"
    unfolding scenario_lines by (simp add: eval_defs)
  have a_differs: "?e5 scenario_csv \<noteq> ?T"
    unfolding a_e5 by (simp add: js_def)
  have b_invalid: "\<not> ?V5 fallback_csv"
    unfolding fallback_lines by (simp add: eval_defs)
  have b_valid: "?V2 fallback_csv"
    unfolding fallback_lines by (simp add: eval_defs)
  have b_oggi: "?oggi fallback_csv = js ''01/01/2020''"
    unfolding fallback_lines by (simp add: eval_defs)
  have c_lines: "split newline (trim (js ''h1'')) = [js ''h1'']"
    by (simp add: js_def char_defs trim_def is_ws_def)
  have c_invalid: "\<not> ?V5 (js ''h1'')" "\<not> ?V2 (js ''h1'')"
    unfolding c_lines by simp_all
  have r1: "fileDate (parseCSVData_netlify ?T scenario_csv) = js ''15/03/2024''"
    using A a_valid a_e5 by simp
  have r2: "fileDate (parseCSVData_express ?T ?T scenario_csv) = js ''15/03/2024''"
    using A a_valid a_differs a_e5 by simp
  have r3: "fileDate (parseCSVData_netlify ?T fallback_csv) = ?T"
    using B b_invalid by simp
  have r4: "fileDate (parseCSVData_express ?T ?T fallback_csv) = js ''01/01/2020''"
    using B b_invalid b_valid b_oggi by simp
  have r5: "fileDate (parseCSVData_express ?T ?T (js ''h1'')) = ?T"
    using C c_invalid by simp
  from r1 r2 r3 r4 r5 show ?thesis
    by (intro conjI)
qed


section \<open>What the normalizers return\<close>

lemma strip_quotes_ws_blank: "trim s = [] \<Longrightarrow> strip_quotes_ws s = []"
  by (auto simp: trim_empty_iff strip_quotes_ws_def filter_empty_conv)

text \<open>
  Claim C4: \<open>parseNumber\<close> and \<open>parseItalianNumber\<close> return a Number for every string, no
  step of theirs being one that throws. A blank string gives 0; a string whose normalized
  form \<open>parseFloat\<close> does not read gives 0; the result is never \<open>NaN\<close>. The strings
  \<open>""\<close>, \<open>"   "\<close> and \<open>"abc"\<close> give 0.
\<close>

theorem C4_normalizer_degrades_to_zero:
  "(trim str = [] \<longrightarrow>
      parseNumber str = Finite False 0 \<and> parseItalianNumber str = Finite False 0) \<and>
   (parseFloat (parseNumber_cleaned str) = NaN \<longrightarrow> parseNumber str = Finite False 0) \<and>
   (parseFloat (replace_first comma period (strip_quotes_ws str)) = NaN \<longrightarrow>
      parseItalianNumber str = Finite False 0) \<and>
   parseNumber str \<noteq> NaN \<and> parseItalianNumber str \<noteq> NaN \<and>
   parseNumber (js '''') = Finite False 0 \<and>
   parseNumber (js ''   '') = Finite False 0 \<and>
   parseNumber (js ''abc'') = Finite False 0 \<and>
   parseItalianNumber (js '''') = Finite False 0 \<and>
   parseItalianNumber (js ''   '') = Finite False 0 \<and>
   parseItalianNumber (js ''abc'') = Finite False 0"
proof -
  have blank: "trim str = [] \<longrightarrow>
      parseNumber str = Finite False 0 \<and> parseItalianNumber str = Finite False 0"
    by (simp add: parseNumber_def parseItalianNumber_def strip_quotes_ws_blank)
  have fail1: "parseFloat (parseNumber_cleaned str) = NaN \<longrightarrow> parseNumber str = Finite False 0"
    by (simp add: parseNumber_def isNaN_def)
  have fail2: "parseFloat (replace_first comma period (strip_quotes_ws str)) = NaN \<longrightarrow>
      parseItalianNumber str = Finite False 0"
    by (simp add: parseItalianNumber_def isNaN_def Let_def)
  have ex:
    "parseNumber (js '''') = Finite False 0"
    "parseNumber (js ''   '') = Finite False 0"
    "parseNumber (js ''abc'') = Finite False 0"
    "parseItalianNumber (js '''') = Finite False 0"
    "parseItalianNumber (js ''   '') = Finite False 0"
    "parseItalianNumber (js ''abc'') = Finite False 0"
    by (simp_all add: eval_defs)
  from blank fail1 fail2 parseNumber_not_NaN parseItalianNumber_not_NaN ex show ?thesis
    by (intro conjI)
qed

text \<open>
  Claim C4 at a blank string and at \<open>a,b\<close>, which \<open>parseFloat\<close> does not read after the
  comma has become a period.
\<close>

theorem C4_normalizer_degrades_to_zero_witness:
  "trim (js ''   '') = [] \<and> parseNumber (js ''   '') = Finite False 0 \<and>
   parseItalianNumber (js ''   '') = Finite False 0 \<and>
   parseFloat (parseNumber_cleaned (js ''a,b'')) = NaN \<and>
   parseNumber (js ''a,b'') = Finite False 0 \<and>
   parseFloat (replace_first comma period (strip_quotes_ws (js ''a,b''))) = NaN \<and>
   parseItalianNumber (js ''a,b'') = Finite False 0"
proof -
  have h1: "trim (js ''   '') = []"
    by (simp add: eval_defs)
  have h2: "parseFloat (parseNumber_cleaned (js ''a,b'')) = NaN"
    by (simp add: eval_defs)
  have h3: "parseFloat (replace_first comma period (strip_quotes_ws (js ''a,b''))) = NaN"
    by (simp add: eval_defs)
  show ?thesis
    using C4_normalizer_degrades_to_zero [of "js ''   ''"]
      C4_normalizer_degrades_to_zero [of "js ''a,b''"] h1 h2 h3
    by blast
qed

text \<open>
  Claim C5: \<open>1.234,56\<close> is normalized to \<open>1.234.56\<close>, of which \<open>parseFloat\<close> reads
  \<open>1.234\<close>: the result is 1.234 and not 1234.56, in both variants. Likewise \<open>12,50\<close> gives
  12.5.
\<close>

theorem C5_naive_comma_substitution:
  "parseNumber (js ''1.234,56'') = Finite False (1234 / 1000) \<and>
   parseItalianNumber (js ''1.234,56'') = Finite False (1234 / 1000) \<and>
   parseNumber (js ''1.234,56'') \<noteq> Finite False (123456 / 100) \<and>
   parseItalianNumber (js ''1.234,56'') \<noteq> Finite False (123456 / 100) \<and>
   parseNumber_cleaned (js ''1.234,56'') = js ''1.234.56'' \<and>
   replace_first comma period (strip_quotes_ws (js ''1.234,56'')) = js ''1.234.56'' \<and>
   parseNumber (js ''12,50'') = Finite False (125 / 10) \<and>
   parseItalianNumber (js ''12,50'') = Finite False (125 / 10)"
  by (simp add: eval_defs)

text \<open>
  Claim C9: \<open>parseItalianNumber\<close> never returns \<open>NaN\<close>, so in the Express parser's row
  loop the test \<open>!isNaN(gas) && !isNaN(power)\<close> holds for every row that reaches it: a
  line that is not blank, has at least three fields and a first field matching the date
  pattern is pushed.
\<close>

theorem C9_nan_guard_never_excludes:
  "\<not> isNaN (parseItalianNumber str) \<and>
   (trim raw \<noteq> [] \<and> 3 \<le> length (parseCSVLine_express (trim raw)) \<and>
    match_date 2 2 (parseCSVLine_express (trim raw) ! 0) \<longrightarrow>
    row_express raw =
      Some \<lparr>date = parseCSVLine_express (trim raw) ! 0,
            gas = parseItalianNumber (parseCSVLine_express (trim raw) ! 1),
            power_field = parseItalianNumber (parseCSVLine_express (trim raw) ! 2)\<rparr>)"
  using row_express_Some [of raw] by (simp add: isNaN_def parseItalianNumber_not_NaN)

text \<open>Claim C9 at a row whose two values \<open>parseFloat\<close> reads as \<open>NaN\<close>.\<close>

theorem C9_nan_guard_never_excludes_witness:
  "match_date 2 2 (parseCSVLine_express (trim (js ''01/01/2024,abc,NaN'')) ! 0) \<and>
   parseFloat (js ''abc'') = NaN \<and> parseFloat (js ''NaN'') = NaN \<and>
   row_express (js ''01/01/2024,abc,NaN'') =
     Some \<lparr>date = js ''01/01/2024'', gas = Finite False 0, power_field = Finite False 0\<rparr>"
proof -
  have h: "trim (js ''01/01/2024,abc,NaN'') \<noteq> []"
    "3 \<le> length (parseCSVLine_express (trim (js ''01/01/2024,abc,NaN'')))"
    "match_date 2 2 (parseCSVLine_express (trim (js ''01/01/2024,abc,NaN'')) ! 0)"
    by (simp_all add: eval_defs)
  have v: "parseCSVLine_express (trim (js ''01/01/2024,abc,NaN'')) =
      [js ''01/01/2024'', js ''abc'', js ''NaN'']"
    "parseItalianNumber (js ''abc'') = Finite False 0"
    "parseItalianNumber (js ''NaN'') = Finite False 0"
    "parseFloat (js ''abc'') = NaN" "parseFloat (js ''NaN'') = NaN"
    by (simp_all add: eval_defs)
  have "row_express (js ''01/01/2024,abc,NaN'') =
     Some \<lparr>date = js ''01/01/2024'', gas = Finite False 0, power_field = Finite False 0\<rparr>"
    using C9_nan_guard_never_excludes [of "[]" "js ''01/01/2024,abc,NaN''"] h
    unfolding v(1) by (simp add: v(2,3))
  with h(3) v(4,5) show ?thesis
    by (intro conjI)
qed

text \<open>
  Claim C7: every record in the data that \<open>parseCSVData\<close> returns has a non-empty date,
  in both variants, and a row whose first field is empty or white space is dropped.
\<close>

theorem C7_dates_nonempty:
  "(\<forall>r \<in> set (data (parseCSVData_netlify today csvText)). date r \<noteq> []) \<and>
   (\<forall>r \<in> set (data (parseCSVData_express today today_again csvText)). date r \<noteq> []) \<and>
   (trim (parseCSVLine_netlify line ! 0) = [] \<longrightarrow> row_netlify line = None) \<and>
   (trim (parseCSVLine_express (trim raw) ! 0) = [] \<longrightarrow> row_express raw = None)"
proof -
  have n: "row_netlify l = Some r \<Longrightarrow> date r \<noteq> []" for l r
    by (auto simp: row_netlify_def Let_def split: if_splits)
  have e: "row_express l = Some r \<Longrightarrow> date r \<noteq> []" for l r
    by (auto simp: row_express_def Let_def split: if_splits)
  have a: "\<forall>r \<in> set (data (parseCSVData_netlify today csvText)). date r \<noteq> []"
    using n by (auto simp: data_netlify List.map_filter_def)
  have b: "\<forall>r \<in> set (data (parseCSVData_express today today_again csvText)). date r \<noteq> []"
    using e by (auto simp: data_express List.map_filter_def)
  have c: "trim (parseCSVLine_netlify line ! 0) = [] \<longrightarrow> row_netlify line = None"
    by (simp add: row_netlify_None_iff)
  have d: "trim (parseCSVLine_express (trim raw) ! 0) = [] \<longrightarrow> row_express raw = None"
    using match_date_trim_nonempty [of 2 2 "parseCSVLine_express (trim raw) ! 0"]
    by (auto simp: row_express_None_iff)
  from a b c d show ?thesis
    by (intro conjI)
qed

text \<open>
  Claim C7 at the scenario, whose data holds one record, and at the row \<open>,,,\<close>, whose
  first field is empty.
\<close>

theorem C7_dates_nonempty_witness:
  "data (parseCSVData_express (js ''2/11/2026'') (js ''2/11/2026'') scenario_csv) =
     [\<lparr>date = js ''01/01/2024'', gas = Finite False 10, power_field = Finite False 5\<rparr>] \<and>
   js ''01/01/2024'' \<noteq> [] \<and>
   data (parseCSVData_netlify (js ''2/11/2026'') scenario_csv_grid) =
     [\<lparr>date = js ''01/01/2024'', gas = Finite False 5, power_field = Finite False 10\<rparr>] \<and>
   trim (parseCSVLine_netlify (js '',,,'') ! 0) = [] \<and> row_netlify (js '',,,'') = None \<and>
   trim (parseCSVLine_express (trim (js '',,,'')) ! 0) = [] \<and> row_express (js '',,,'') = None"
proof -
  let ?T = "js ''2/11/2026''"
  have d1: "data (parseCSVData_express ?T ?T scenario_csv) =
     [\<lparr>date = js ''01/01/2024'', gas = Finite False 10, power_field = Finite False 5\<rparr>]"
    by (simp add: data_express scenario_lines scenario_rows_express List.map_filter_simps)
  have d2: "data (parseCSVData_netlify ?T scenario_csv_grid) =
     [\<lparr>date = js ''01/01/2024'', gas = Finite False 5, power_field = Finite False 10\<rparr>]"
    by (simp add: data_netlify scenario_grid_lines scenario_rows_netlify List.map_filter_simps)
  have b1: "trim (parseCSVLine_netlify (js '',,,'') ! 0) = []"
    and b2: "trim (parseCSVLine_express (trim (js '',,,'')) ! 0) = []"
    by (simp_all add: eval_defs)
  note A = C7_dates_nonempty [of ?T scenario_csv ?T "js '',,,''" "js '',,,''"]
  note B = C7_dates_nonempty [of ?T scenario_csv_grid ?T "js '',,,''" "js '',,,''"]
  have r1: "js ''01/01/2024'' \<noteq> []"
    using A d1 by simp
  have r2: "row_netlify (js '',,,'') = None"
    using B b1 by simp
  have r3: "row_express (js '',,,'') = None"
    using A b2 by simp
  from d1 r1 d2 b1 r2 b2 r3 show ?thesis
    by (intro conjI)
qed


section \<open>The endpoint's replies\<close>

lemma handler_cases:
  assumes "includes_str (path event) (js ''energy-data'')" and "httpMethod event = js ''GET''"
  shows "handler today fetched event =
     (case handler_try today fetched of
        Returns parsedData \<Rightarrow>
          \<lparr>statusCode = 200,
           headers = cors_headers @ [(''Content-Type'', ''application/json'')],
           body = SheetBody parsedData\<rparr>
      | Throws error \<Rightarrow>
          \<lparr>statusCode = 500,
           headers = cors_headers @ [(''Content-Type'', ''application/json'')],
           body = ObjectBody [(''error'', js ''Failed to fetch energy data''),
                              (''details'', message_of error)]\<rparr>)"
proof -
  have "js ''GET'' \<noteq> js ''OPTIONS''"
    by (simp add: js_def)
  with assms show ?thesis
    by (simp add: handler_def)
qed

lemma handler_try_Returns:
  "handler_try today fetched = Returns parsedData \<longleftrightarrow>
     (\<exists>response csvText. fetched = Returns response \<and> ok response \<and>
        text_of response = Returns csvText \<and> parsedData = parseCSVData_netlify today csvText)"
  by (auto simp: handler_try_def split: completion.splits)

lemma route_try_Returns:
  "route_try z_number issues today today_again fetched = Returns validatedData \<longleftrightarrow>
     (\<exists>response csvText. fetched = Returns response \<and> ok response \<and>
        text_of response = Returns csvText \<and>
        validatedData = parseCSVData_express today today_again csvText \<and>
        list_all (\<lambda>r. z_number (gas r) \<and> z_number (power_field r)) (data validatedData))"
  by (auto simp: route_try_def sheetDataSchema_parse_def split: completion.splits)

text \<open>
  Claim C8: a \<open>GET\<close> request to the energy-data endpoint is answered either with status
  200 and the whole parsed sheet of the fetched text as body, which takes a fetch that
  returns an ok response whose text can be read (and, in the Express route, a sheet
  that passes the validation), or with status 500 and an error object; nothing else is
  returned. This holds for the Netlify handler and for the Express route.
\<close>

theorem C8_full_snapshot_or_error:
  "(includes_str (path event) (js ''energy-data'') \<and> httpMethod event = js ''GET'' \<longrightarrow>
      (statusCode (handler today fetched event) = 200 \<and>
       (\<exists>response csvText. fetched = Returns response \<and> ok response \<and>
          text_of response = Returns csvText \<and>
          body (handler today fetched event) =
            SheetBody (parseCSVData_netlify today csvText)))
      \<or>
      (statusCode (handler today fetched event) = 500 \<and>
       (\<exists>details. body (handler today fetched event) =
          ObjectBody [(''error'', js ''Failed to fetch energy data''), (''details'', details)])))
   \<and>
   ((reply_status (energy_data_route z_number issues today today_again fetched) = 200 \<and>
     (\<exists>response csvText. fetched = Returns response \<and> ok response \<and>
        text_of response = Returns csvText \<and>
        list_all (\<lambda>r. z_number (gas r) \<and> z_number (power_field r))
          (data (parseCSVData_express today today_again csvText)) \<and>
        reply_json (energy_data_route z_number issues today today_again fetched) =
          SheetBody (parseCSVData_express today today_again csvText)))
    \<or>
    (reply_status (energy_data_route z_number issues today today_again fetched) = 500 \<and>
     (\<exists>details. reply_json (energy_data_route z_number issues today today_again fetched) =
        ObjectBody [(''message'', js ''Failed to fetch energy data from Google Sheets''),
                    (''error'', details)])))"
proof (intro conjI impI)
  assume a: "includes_str (path event) (js ''energy-data'') \<and> httpMethod event = js ''GET''"
  show "(statusCode (handler today fetched event) = 200 \<and>
       (\<exists>response csvText. fetched = Returns response \<and> ok response \<and>
          text_of response = Returns csvText \<and>
          body (handler today fetched event) =
            SheetBody (parseCSVData_netlify today csvText)))
      \<or>
      (statusCode (handler today fetched event) = 500 \<and>
       (\<exists>details. body (handler today fetched event) =
          ObjectBody [(''error'', js ''Failed to fetch energy data''), (''details'', details)]))"
  proof (cases "handler_try today fetched")
    case (Throws error)
    with a show ?thesis by (simp add: handler_cases)
  next
    case (Returns parsedData)
    with a handler_try_Returns [of today fetched parsedData] show ?thesis
      by (auto simp: handler_cases)
  qed
next
  show "(reply_status (energy_data_route z_number issues today today_again fetched) = 200 \<and>
     (\<exists>response csvText. fetched = Returns response \<and> ok response \<and>
        text_of response = Returns csvText \<and>
        list_all (\<lambda>r. z_number (gas r) \<and> z_number (power_field r))
          (data (parseCSVData_express today today_again csvText)) \<and>
        reply_json (energy_data_route z_number issues today today_again fetched) =
          SheetBody (parseCSVData_express today today_again csvText)))
    \<or>
    (reply_status (energy_data_route z_number issues today today_again fetched) = 500 \<and>
     (\<exists>details. reply_json (energy_data_route z_number issues today today_again fetched) =
        ObjectBody [(''message'', js ''Failed to fetch energy data from Google Sheets''),
                    (''error'', details)]))"
  proof (cases "route_try z_number issues today today_again fetched")
    case (Throws error)
    then show ?thesis by (simp add: energy_data_route_def)
  next
    case (Returns validatedData)
    with route_try_Returns [of z_number issues today today_again fetched validatedData]
    show ?thesis
      by (auto simp: energy_data_route_def)
  qed
qed

text \<open>
  Claim C8 at a request for \<open>/api/energy-data\<close>, once with the scenario as the fetched
  text and once with a response that is not ok.
\<close>

theorem C8_full_snapshot_or_error_witness:
  "includes_str (path \<lparr>path = js ''/api/energy-data'', httpMethod = js ''GET''\<rparr>)
     (js ''energy-data'') \<and>
   statusCode (handler (js ''2/11/2026'')
     (Returns \<lparr>ok = True, status = 200, statusText = js ''OK'',
               text_of = Returns scenario_csv_grid\<rparr>)
     \<lparr>path = js ''/api/energy-data'', httpMethod = js ''GET''\<rparr>) = 200 \<and>
   body (handler (js ''2/11/2026'')
     (Returns \<lparr>ok = True, status = 200, statusText = js ''OK'',
               text_of = Returns scenario_csv_grid\<rparr>)
     \<lparr>path = js ''/api/energy-data'', httpMethod = js ''GET''\<rparr>) =
     SheetBody (parseCSVData_netlify (js ''2/11/2026'') scenario_csv_grid) \<and>
   statusCode (handler (js ''2/11/2026'')
     (Returns \<lparr>ok = False, status = 404, statusText = js ''Not Found'',
               text_of = Returns []\<rparr>)
     \<lparr>path = js ''/api/energy-data'', httpMethod = js ''GET''\<rparr>) = 500 \<and>
   reply_json (energy_data_route (\<lambda>x. x \<noteq> NaN) (\<lambda>d. []) (js ''2/11/2026'') (js ''2/11/2026'')
     (Returns \<lparr>ok = True, status = 200, statusText = js ''OK'',
               text_of = Returns scenario_csv\<rparr>)) =
     SheetBody (parseCSVData_express (js ''2/11/2026'') (js ''2/11/2026'') scenario_csv)"
proof -
  let ?T = "js ''2/11/2026''"
  let ?ev = "\<lparr>path = js ''/api/energy-data'', httpMethod = js ''GET''\<rparr>"
  let ?good = "Returns \<lparr>ok = True, status = 200, statusText = js ''OK'',
      text_of = Returns scenario_csv_grid\<rparr>"
  let ?bad = "Returns \<lparr>ok = False, status = 404, statusText = js ''Not Found'',
      text_of = Returns []\<rparr>"
  have inc: "includes_str (path ?ev) (js ''energy-data'')"
    by (simp add: js_def)
  have h: "includes_str (path ?ev) (js ''energy-data'') \<and> httpMethod ?ev = js ''GET''"
    using inc by simp
  have n500: "statusCode (handler ?T ?good ?ev) \<noteq> 500"
    using h by (simp add: handler_cases handler_try_def)
  have n200: "statusCode (handler ?T ?bad ?ev) \<noteq> 200"
    using h by (simp add: handler_cases handler_try_def)
  have good: "statusCode (handler ?T ?good ?ev) = 200 \<and>
      body (handler ?T ?good ?ev) = SheetBody (parseCSVData_netlify ?T scenario_csv_grid)"
    using C8_full_snapshot_or_error [where event = ?ev and today = ?T and fetched = ?good] h n500
    by auto
  have bad: "statusCode (handler ?T ?bad ?ev) = 500"
    using C8_full_snapshot_or_error [where event = ?ev and today = ?T and fetched = ?bad] h n200
    by auto
  let ?sheet = "Returns \<lparr>ok = True, status = 200, statusText = js ''OK'',
      text_of = Returns scenario_csv\<rparr>"
  have r500: "reply_status (energy_data_route (\<lambda>x. x \<noteq> NaN) (\<lambda>d. []) ?T ?T ?sheet) \<noteq> 500"
    by (simp add: energy_data_route_def route_try_def sheetDataSchema_parse_def data_express
        scenario_lines scenario_rows_express List.map_filter_simps)
  have route: "reply_json (energy_data_route (\<lambda>x. x \<noteq> NaN) (\<lambda>d. []) ?T ?T ?sheet) =
      SheetBody (parseCSVData_express ?T ?T scenario_csv)"
    using C8_full_snapshot_or_error [where z_number = "\<lambda>x. x \<noteq> NaN" and issues = "\<lambda>d. []"
        and today = ?T and today_again = ?T and fetched = ?sheet] r500
    by auto
  from inc good bad route show ?thesis
    by (intro conjI) simp_all
qed

end
